theory Spec2Isabelle
  imports Main "HOL-Library.Sublist"
begin

section \<open>Data model (types.ts)\<close>

text \<open>
  JavaScript strings are modelled as \<^typ>\<open>string\<close>; text outside ASCII is written as its
  UTF-8 bytes. Timestamps (\<^verbatim>\<open>Date.now()\<close>, milliseconds) are natural numbers. An optional
  field (\<^verbatim>\<open>mode?: AppMode\<close>) is an \<^typ>\<open>'a option\<close>, with \<^term>\<open>None\<close> for
  \<^verbatim>\<open>undefined\<close>. Field names carry a prefix, since several interfaces share them.
\<close>

datatype AppMode = Video | Image | Pdp

record ProductInfo =
  p_name :: string
  p_description :: string
  p_creativeDirection :: string
  p_userImages :: "string list option"

record SceneConcept =
  c_id :: string
  c_title :: string
  c_description :: string
  c_script :: string
  c_storyboard :: string
  c_visualPrompt :: string
  c_productName :: string
  c_creativeDirection :: string
  c_createdAt :: nat
  c_mode :: "AppMode option"

record ImageHistoryItem =
  i_id :: string
  i_base64 :: string
  i_prompt :: string
  i_productName :: string
  i_creativeDirection :: string
  i_conceptTitle :: string
  i_conceptId :: string
  i_createdAt :: nat
  i_mode :: "AppMode option"

record VideoHistoryItem =
  v_id :: string
  v_uri :: string
  v_blobUrl :: string
  v_productName :: string
  v_creativeDirection :: string
  v_conceptTitle :: string
  v_createdAt :: nat
  v_mode :: "AppMode option"

datatype AssetType = ConceptAsset | ImageAsset | VideoAsset

text \<open>\<^verbatim>\<open>content: any\<close> holds a concept, an image payload or a video URL.\<close>

datatype AssetContent = ConceptContent SceneConcept | TextContent string

record AssetMeta =
  m_title :: "string option"
  m_prompt :: "string option"
  m_mode :: "AppMode option"
  m_productName :: "string option"
  m_conceptTitle :: "string option"

record LibraryAsset =
  a_id :: string
  a_type :: AssetType
  a_content :: AssetContent
  a_timestamp :: nat
  a_meta :: "AssetMeta option"

record AppConfig =
  textModel :: string
  textKey :: string
  imageModel :: string
  imageKey :: string
  videoModel :: string
  videoKey :: string

definition DEFAULT_CONFIG :: AppConfig where
  "DEFAULT_CONFIG =
     \<lparr>textModel = ''gemini-3-flash-preview'', textKey = '''',
      imageModel = ''gemini-2.5-flash-image'', imageKey = '''',
      videoModel = ''veo-3.1-fast-generate-preview'', videoKey = ''''\<rparr>"

subsection \<open>Numbers as text\<close>

text \<open>\<^verbatim>\<open>n.toString()\<close> of a non-negative integer: its decimal digits.\<close>

fun toString :: "nat \<Rightarrow> string" where
  "toString n =
     (if n < 10 then [''0123456789'' ! n]
      else toString (n div 10) @ [''0123456789'' ! (n mod 10)])"

declare toString.simps [simp del]

section \<open>The App component: core state and its handlers\<close>

text \<open>
  The \<^verbatim>\<open>useState\<close> cells of \<^verbatim>\<open>App\<close>, as one record. Every handler is a function from the
  state to the next state; a functional update \<^verbatim>\<open>setX(prev => ...)\<close> reads the cell as it
  is when the update runs.
\<close>

record AppState =
  product :: "ProductInfo option"
  selectedConcept :: "SceneConcept option"
  generatedImage :: "string option"
  appMode :: AppMode
  historyConcepts :: "SceneConcept list"
  historyImages :: "ImageHistoryItem list"
  historyVideos :: "VideoHistoryItem list"
  appConfig :: AppConfig
  isSettingsOpen :: bool
  isLibraryOpen :: bool
  libraryAssets :: "LibraryAsset list"

definition initialState :: AppState where
  "initialState =
     \<lparr>product = None, selectedConcept = None, generatedImage = None, appMode = Video,
      historyConcepts = [], historyImages = [], historyVideos = [],
      appConfig = DEFAULT_CONFIG, isSettingsOpen = False, isLibraryOpen = False,
      libraryAssets = []\<rparr>"

definition handleSaveConfig :: "AppConfig \<Rightarrow> AppState \<Rightarrow> AppState" where
  "handleSaveConfig newConfig s = s\<lparr>appConfig := newConfig\<rparr>"

text \<open>
  \<^verbatim>\<open>handleAddToLibrary\<close> reads the clock twice, for the id and for the timestamp: \<open>t1\<close> and
  \<open>t2\<close> are the two readings.
\<close>

definition handleAddToLibrary ::
  "nat \<Rightarrow> nat \<Rightarrow> AssetType \<Rightarrow> AssetContent \<Rightarrow> AssetMeta option \<Rightarrow> AppState \<Rightarrow> AppState" where
  "handleAddToLibrary t1 t2 ty content meta s =
     (let newAsset = \<lparr>a_id = toString t1, a_type = ty, a_content = content,
                       a_timestamp = t2, a_meta = meta\<rparr>
      in s\<lparr>libraryAssets := newAsset # libraryAssets s\<rparr>)"

definition addHistoryConcept :: "SceneConcept list \<Rightarrow> AppState \<Rightarrow> AppState" where
  "addHistoryConcept concepts s = s\<lparr>historyConcepts := concepts @ historyConcepts s\<rparr>"

definition addHistoryImage :: "ImageHistoryItem \<Rightarrow> AppState \<Rightarrow> AppState" where
  "addHistoryImage img s =
     s\<lparr>historyImages := img # historyImages s, generatedImage := Some (i_base64 img)\<rparr>"

definition addHistoryVideo :: "VideoHistoryItem \<Rightarrow> AppState \<Rightarrow> AppState" where
  "addHistoryVideo vid s = s\<lparr>historyVideos := vid # historyVideos s\<rparr>"

definition handleModeChange :: "AppMode \<Rightarrow> AppState \<Rightarrow> AppState" where
  "handleModeChange mode s =
     s\<lparr>appMode := mode, selectedConcept := None, generatedImage := None\<rparr>"

text \<open>The inline callbacks of the render tree: \<^verbatim>\<open>onNext\<close> of the input step and
  \<^verbatim>\<open>onSelect\<close> of the ideation step.\<close>

definition onNext :: "ProductInfo \<Rightarrow> AppState \<Rightarrow> AppState" where
  "onNext info s = s\<lparr>product := Some info\<rparr>"

definition onSelect :: "SceneConcept \<Rightarrow> AppState \<Rightarrow> AppState" where
  "onSelect concept s = s\<lparr>selectedConcept := Some concept, generatedImage := None\<rparr>"

text \<open>Every way the \<^verbatim>\<open>App\<close> component changes its state, as one operation type.\<close>

datatype AppOp =
    SaveConfig AppConfig
  | AddToLibrary nat nat AssetType AssetContent "AssetMeta option"
  | AddHistoryConcept "SceneConcept list"
  | AddHistoryImage ImageHistoryItem
  | AddHistoryVideo VideoHistoryItem
  | ModeChange AppMode
  | Next ProductInfo
  | Select SceneConcept
  | SetSettingsOpen bool
  | SetLibraryOpen bool

fun step :: "AppState \<Rightarrow> AppOp \<Rightarrow> AppState" where
  "step s (SaveConfig cfg) = handleSaveConfig cfg s"
| "step s (AddToLibrary t1 t2 ty content meta) = handleAddToLibrary t1 t2 ty content meta s"
| "step s (AddHistoryConcept concepts) = addHistoryConcept concepts s"
| "step s (AddHistoryImage img) = addHistoryImage img s"
| "step s (AddHistoryVideo vid) = addHistoryVideo vid s"
| "step s (ModeChange mode) = handleModeChange mode s"
| "step s (Next info) = onNext info s"
| "step s (Select concept) = onSelect concept s"
| "step s (SetSettingsOpen b) = s\<lparr>isSettingsOpen := b\<rparr>"
| "step s (SetLibraryOpen b) = s\<lparr>isLibraryOpen := b\<rparr>"

definition run :: "AppState \<Rightarrow> AppOp list \<Rightarrow> AppState" where
  "run s ops = foldl step s ops"

section \<open>The generation provider\<close>

text \<open>
  The provider is an external collaborator: the service sends it a request and gets a
  response or an error back. The model keeps, for each kind of call, an oracle that
  answers a request given the number of calls made before it (so two equal requests may
  be answered differently, as a remote service may), and the log of the requests sent.
  A thrown exception or rejected promise is \<^term>\<open>Inl\<close> of an error.
\<close>

datatype error = Error string

record inlineData =
  mimeType :: string
  payload :: string

text \<open>
  The long prompt templates are fixed text around the values filled in; a prompt is
  recorded by the template and those values. \<open>Literal\<close> is a prompt given in full.
\<close>

datatype prompt =
    ConceptPrompt AppMode string string string "nat option"
  | ParsePrompt string string
  | Literal string

datatype part = InlinePart inlineData | TextPart prompt

datatype contents = Prompt prompt | Parts "part list"

datatype schema = ConceptSchema | ShotSchema

record text_request =
  t_model :: string
  t_contents :: contents
  t_responseSchema :: schema

record image_request =
  g_model :: string
  g_contents :: contents
  g_aspectRatio :: string
  g_imageSize :: "string option"

record referenceImage =
  imageBytes :: string
  ref_mimeType :: string
  referenceType :: string

record video_request =
  q_model :: string
  q_prompt :: string
  q_numberOfVideos :: nat
  q_referenceImages :: "referenceImage list option"
  q_resolution :: string
  q_aspectRatio :: string

text \<open>\<^verbatim>\<open>response.text\<close>, absent or a string.\<close>

record text_response =
  r_text :: "string option"

text \<open>
  A part of an image response either carries \<^verbatim>\<open>inlineData\<close> (kept by its data) or does
  not. \<open>r_parts\<close> is \<^verbatim>\<open>response.candidates?.[0]?.content?.parts\<close>, \<^term>\<open>None\<close> when a
  link of the chain is missing.
\<close>

datatype response_part = ImagePart string | OtherPart

record image_response =
  r_parts :: "response_part list option"

text \<open>
  A long-running video operation: whether it is finished, and
  \<^verbatim>\<open>operation.response?.generatedVideos?.[0]?.video?.uri\<close>.
\<close>

record operation =
  op_done :: bool
  op_videoUri :: "string option"

datatype call =
    TextCall text_request
  | ImageCall image_request
  | VideoCall video_request
  | PollCall operation

record provider =
  textGenerate :: "nat \<Rightarrow> text_request \<Rightarrow> error + text_response"
  imageGenerate :: "nat \<Rightarrow> image_request \<Rightarrow> error + image_response"
  videoGenerate :: "nat \<Rightarrow> video_request \<Rightarrow> error + operation"
  pollOperation :: "nat \<Rightarrow> operation \<Rightarrow> error + operation"
  calls :: "call list"

definition generateContentText ::
  "text_request \<Rightarrow> provider \<Rightarrow> (error + text_response) \<times> provider" where
  "generateContentText req w =
     (textGenerate w (length (calls w)) req, w\<lparr>calls := calls w @ [TextCall req]\<rparr>)"

definition generateContentImage ::
  "image_request \<Rightarrow> provider \<Rightarrow> (error + image_response) \<times> provider" where
  "generateContentImage req w =
     (imageGenerate w (length (calls w)) req, w\<lparr>calls := calls w @ [ImageCall req]\<rparr>)"

definition generateVideos ::
  "video_request \<Rightarrow> provider \<Rightarrow> (error + operation) \<times> provider" where
  "generateVideos req w =
     (videoGenerate w (length (calls w)) req, w\<lparr>calls := calls w @ [VideoCall req]\<rparr>)"

definition getVideosOperation ::
  "operation \<Rightarrow> provider \<Rightarrow> (error + operation) \<times> provider" where
  "getVideosOperation opn w =
     (pollOperation w (length (calls w)) opn, w\<lparr>calls := calls w @ [PollCall opn]\<rparr>)"

section \<open>The generation service (services/geminiService.ts)\<close>

text \<open>
  Every operation of the service is a function of its arguments, of the configuration
  (the module variable \<^verbatim>\<open>currentConfig\<close>, here the parameter \<open>cfg\<close>) and of the provider,
  and returns its result, or the error it throws, with the provider after its calls. The
  choice of the API key does not change what is sent or what is done with the answer and
  is left out.
\<close>

subsection \<open>JavaScript helpers\<close>

text \<open>A string in a condition: \<^verbatim>\<open>undefined\<close> and the empty string are falsy.\<close>

fun truthy :: "string option \<Rightarrow> bool" where
  "truthy None = False"
| "truthy (Some t) = (t \<noteq> [])"

text \<open>\<^verbatim>\<open>s.includes(sub)\<close>.\<close>

fun js_includes :: "string \<Rightarrow> string \<Rightarrow> bool" where
  "js_includes [] sub = (sub = [])"
| "js_includes (x # xs) sub = (prefix sub (x # xs) \<or> js_includes xs sub)"

text \<open>\<^verbatim>\<open>img.replace(/^data:image\/(png|jpeg|jpg);base64,/, "")\<close>.\<close>

definition stripDataUrl :: "string \<Rightarrow> string" where
  "stripDataUrl img =
     (if prefix ''data:image/png;base64,'' img
        then drop (length ''data:image/png;base64,'') img
      else if prefix ''data:image/jpeg;base64,'' img
        then drop (length ''data:image/jpeg;base64,'') img
      else if prefix ''data:image/jpg;base64,'' img
        then drop (length ''data:image/jpg;base64,'') img
      else img)"

definition inlinePng :: "string \<Rightarrow> part" where
  "inlinePng img = InlinePart \<lparr>mimeType = ''image/png'', payload = stripDataUrl img\<rparr>"

text \<open>The first part of an image response that carries \<^verbatim>\<open>inlineData\<close>.\<close>

fun firstInlineData :: "response_part list \<Rightarrow> string option" where
  "firstInlineData [] = None"
| "firstInlineData (ImagePart d # ps) = Some d"
| "firstInlineData (OtherPart # ps) = firstInlineData ps"

definition responseParts :: "image_response \<Rightarrow> response_part list" where
  "responseParts response = (case r_parts response of None \<Rightarrow> [] | Some ps \<Rightarrow> ps)"

subsection \<open>generateConcepts\<close>

text \<open>
  What \<^verbatim>\<open>JSON.parse(text) as SceneConcept[]\<close> holds before the caller stamps it: the
  fields of the response schema (\<^verbatim>\<open>id\<close> is not required). \<^verbatim>\<open>JSON.parse\<close> itself is a
  parameter of the model: a function from the text to the parsed list, or to the
  \<^verbatim>\<open>SyntaxError\<close> it throws.
\<close>

record raw_concept =
  rc_id :: "string option"
  rc_title :: string
  rc_description :: string
  rc_script :: string
  rc_storyboard :: string
  rc_visualPrompt :: string

definition nonEmptyImages :: "string list option \<Rightarrow> string list" where
  "nonEmptyImages productImages = (case productImages of None \<Rightarrow> [] | Some imgs \<Rightarrow> imgs)"

definition conceptsRequest ::
  "AppConfig \<Rightarrow> string \<Rightarrow> string \<Rightarrow> string \<Rightarrow> string list option \<Rightarrow> AppMode \<Rightarrow> text_request" where
  "conceptsRequest cfg name description direction productImages mode =
     (let imgs = nonEmptyImages productImages;
          textPrompt = ConceptPrompt mode name description direction
                         (if length imgs > 0 then Some (length imgs) else None);
          contents = (if length imgs > 0
                      then Parts (TextPart textPrompt # map inlinePng imgs)
                      else Prompt textPrompt)
      in \<lparr>t_model = textModel cfg, t_contents = contents, t_responseSchema = ConceptSchema\<rparr>)"

definition generateConcepts ::
  "AppConfig \<Rightarrow> (string \<Rightarrow> error + raw_concept list) \<Rightarrow> string \<Rightarrow> string \<Rightarrow> string \<Rightarrow>
   string list option \<Rightarrow> AppMode \<Rightarrow> provider \<Rightarrow> (error + raw_concept list) \<times> provider" where
  "generateConcepts cfg parse name description direction productImages mode w =
     (case generateContentText
             (conceptsRequest cfg name description direction productImages mode) w of
        (Inl e, w') \<Rightarrow> (Inl e, w')
      | (Inr response, w') \<Rightarrow>
          (if \<not> truthy (r_text response) then (Inl (Error ''No concepts generated''), w')
           else (case r_text response of
                   None \<Rightarrow> (Inl (Error ''No concepts generated''), w')
                 | Some t \<Rightarrow> (parse t, w'))))"

subsection \<open>generateSceneImage and editSceneImage\<close>

definition imageSizeFor :: "string \<Rightarrow> string option" where
  "imageSizeFor model = (if \<not> js_includes model ''flash'' then Some ''1K'' else None)"



definition editRequest ::
  "AppConfig \<Rightarrow> string \<Rightarrow> string \<Rightarrow> string option \<Rightarrow> string \<Rightarrow> image_request" where
  "editRequest cfg baseImage instruction referenceProductImage aspectRatio =
     (let parts = [inlinePng baseImage] @
            (case referenceProductImage of
               None \<Rightarrow> []
             | Some r \<Rightarrow>
                 (if r = [] then []
                  else [inlinePng r,
                        TextPart (Literal (''Reference product image provided above. You MUST maintain the product''
                          @ [CHR 0x27] @ ''s visual identity details (logo, color, shape) strictly while applying the edit.''))])) @
            [TextPart (Literal (''Edit the first image provided. Instruction: '' @ instruction))]
      in \<lparr>g_model = imageModel cfg, g_contents = Parts parts, g_aspectRatio = aspectRatio,
          g_imageSize = imageSizeFor (imageModel cfg)\<rparr>)"

definition editSceneImage ::
  "AppConfig \<Rightarrow> string \<Rightarrow> string \<Rightarrow> string option \<Rightarrow> string \<Rightarrow> provider \<Rightarrow>
   (error + string) \<times> provider" where
  "editSceneImage cfg baseImage instruction referenceProductImage aspectRatio w =
     (case generateContentImage
             (editRequest cfg baseImage instruction referenceProductImage aspectRatio) w of
        (Inl e, w') \<Rightarrow> (Inl e, w')
      | (Inr response, w') \<Rightarrow>
          (case firstInlineData (responseParts response) of
             Some d \<Rightarrow> (Inr (''data:image/png;base64,'' @ d), w')
           | None \<Rightarrow> (Inl (Error ''Image editing failed''), w')))"

subsection \<open>generateStoryboardShots\<close>

record shot_config =
  s_label :: string
  s_instruction :: string

record storyboard_shot =
  sh_label :: string
  sh_base64 :: string
  sh_instruction :: string

fun roleContext :: "AppMode \<Rightarrow> string" where
  "roleContext Video =
     ''You are a Storyboard Artist for Video Ads. Extract 4 cinematic shots (POV, Close-up, Wide, etc.).''"
| "roleContext Image =
     ''You are a Social Media Photographer. Extract 4 distinct photo concepts (Flat lay, Context, Detail, etc.).''"
| "roleContext Pdp =
     ''You are an E-commerce Designer. Extract 4 layout sections for a PDP (Header, Pain Point, Feature, Usage).''"

definition parseRequest :: "AppConfig \<Rightarrow> string \<Rightarrow> AppMode \<Rightarrow> text_request" where
  "parseRequest cfg storyboardScript mode =
     \<lparr>t_model = textModel cfg,
      t_contents = Prompt (ParsePrompt (roleContext mode) storyboardScript),
      t_responseSchema = ShotSchema\<rparr>"

text \<open>The label prefix of the default shots, two CJK characters in UTF-8.\<close>

definition visual :: string where
  "visual = [CHR 0xE8, CHR 0xA7, CHR 0x86, CHR 0xE8, CHR 0xA7, CHR 0x89]"

definition defaultShots :: "shot_config list" where
  "defaultShots =
     [\<lparr>s_label = visual @ '' 1'',
       s_instruction = ''Main hero shot, high quality, commercial lighting.''\<rparr>,
      \<lparr>s_label = visual @ '' 2'',
       s_instruction = ''Detail shot, close up, texture focus.''\<rparr>,
      \<lparr>s_label = visual @ '' 3'',
       s_instruction = ''Context usage shot, lifestyle vibe.''\<rparr>,
      \<lparr>s_label = visual @ '' 4'',
       s_instruction = ''Creative composition, artistic angle.''\<rparr>]"

text \<open>
  Phase A, the first half of \<^verbatim>\<open>generateStoryboardShots\<close>: \<open>shotsConfig\<close> starts empty;
  inside the \<^verbatim>\<open>try\<close> the text call is made and, when the response has text, its parse
  replaces \<open>shotsConfig\<close>; an exception of the call or of \<^verbatim>\<open>JSON.parse\<close> is caught and
  leaves it empty. Then the fallback replaces an empty \<open>shotsConfig\<close> by the default
  shots. \<^verbatim>\<open>JSON.parse\<close> is a parameter, typed as the response schema and the
  declaration of \<open>shotsConfig\<close> have it: a list of label and instruction pairs.
\<close>

definition tryParse ::
  "AppConfig \<Rightarrow> (string \<Rightarrow> error + shot_config list) \<Rightarrow> string \<Rightarrow> AppMode \<Rightarrow> provider \<Rightarrow>
   shot_config list \<times> provider" where
  "tryParse cfg parse storyboardScript mode w =
     (case generateContentText (parseRequest cfg storyboardScript mode) w of
        (Inl e, w') \<Rightarrow> ([], w')
      | (Inr response, w') \<Rightarrow>
          (case r_text response of
             None \<Rightarrow> ([], w')
           | Some t \<Rightarrow>
               (if t = [] then ([], w')
                else (case parse t of Inl e \<Rightarrow> ([], w') | Inr parsed \<Rightarrow> (parsed, w')))))"

definition phaseA ::
  "AppConfig \<Rightarrow> (string \<Rightarrow> error + shot_config list) \<Rightarrow> string \<Rightarrow> AppMode \<Rightarrow> provider \<Rightarrow>
   shot_config list \<times> provider" where
  "phaseA cfg parse storyboardScript mode w =
     (case tryParse cfg parse storyboardScript mode w of
        (shotsConfig, w') \<Rightarrow>
          (if length shotsConfig = 0 then (defaultShots, w') else (shotsConfig, w')))"

text \<open>
  Phase B. \<^verbatim>\<open>shotsConfig.map(async shot => ...)\<close> starts the edit call of every shot in
  list order, each inside its own \<^verbatim>\<open>try\<close>: a shot whose call fails yields
  \<^verbatim>\<open>null\<close> (\<^term>\<open>None\<close>) in its slot. \<^verbatim>\<open>Promise.all\<close> keeps the slots in list order and
  the final \<^verbatim>\<open>filter\<close> drops the \<^verbatim>\<open>null\<close> slots.
\<close>

fun renderShots ::
  "AppConfig \<Rightarrow> string \<Rightarrow> string option \<Rightarrow> string \<Rightarrow> shot_config list \<Rightarrow> provider \<Rightarrow>
   storyboard_shot option list \<times> provider" where
  "renderShots cfg baseImage referenceImage aspectRatio [] w = ([], w)"
| "renderShots cfg baseImage referenceImage aspectRatio (shot # rest) w =
     (case editSceneImage cfg baseImage (s_instruction shot) referenceImage aspectRatio w of
        (r, w') \<Rightarrow>
          (let slot = (case r of
                         Inr result \<Rightarrow>
                           Some \<lparr>sh_label = s_label shot, sh_base64 = result,
                                 sh_instruction = s_instruction shot\<rparr>
                       | Inl e \<Rightarrow> None)
           in (case renderShots cfg baseImage referenceImage aspectRatio rest w' of
                 (slots, w'') \<Rightarrow> (slot # slots, w''))))"

text \<open>
  Slot \<open>i\<close> of the array \<^verbatim>\<open>Promise.all\<close> resolves to: what the callback of shot \<open>i\<close>
  returns, its edit call being made after the calls of the \<open>i\<close> shots before it.
\<close>

definition shotCall :: "AppConfig \<Rightarrow> string \<Rightarrow> string option \<Rightarrow> string \<Rightarrow> shot_config \<Rightarrow> call" where
  "shotCall cfg baseImage referenceImage aspectRatio shot =
     ImageCall (editRequest cfg baseImage (s_instruction shot) referenceImage aspectRatio)"

definition shotSlot ::
  "AppConfig \<Rightarrow> string \<Rightarrow> string option \<Rightarrow> string \<Rightarrow> provider \<Rightarrow> shot_config list \<Rightarrow> nat \<Rightarrow>
   storyboard_shot option" where
  "shotSlot cfg baseImage referenceImage aspectRatio w shots i =
     (case fst (editSceneImage cfg baseImage (s_instruction (shots ! i)) referenceImage aspectRatio
                  (w\<lparr>calls := calls w @
                       map (shotCall cfg baseImage referenceImage aspectRatio) (take i shots)\<rparr>)) of
        Inr result \<Rightarrow>
          Some \<lparr>sh_label = s_label (shots ! i), sh_base64 = result,
                sh_instruction = s_instruction (shots ! i)\<rparr>
      | Inl e \<Rightarrow> None)"

definition notNull :: "'a option list \<Rightarrow> 'a list" where
  "notNull results = concat (map (\<lambda>r. case r of None \<Rightarrow> [] | Some x \<Rightarrow> [x]) results)"

definition primaryReference :: "string list option \<Rightarrow> string option" where
  "primaryReference referenceProductImages =
     (case nonEmptyImages referenceProductImages of [] \<Rightarrow> None | img # _ \<Rightarrow> Some img)"

definition phaseB ::
  "AppConfig \<Rightarrow> string \<Rightarrow> string list option \<Rightarrow> string \<Rightarrow> shot_config list \<Rightarrow> provider \<Rightarrow>
   (error + storyboard_shot list) \<times> provider" where
  "phaseB cfg baseImage referenceProductImages aspectRatio shotsConfig w =
     (let referenceImage = primaryReference referenceProductImages
      in (case renderShots cfg baseImage referenceImage aspectRatio shotsConfig w of
            (results, w') \<Rightarrow> (Inr (notNull results), w')))"

definition generateStoryboardShots ::
  "AppConfig \<Rightarrow> (string \<Rightarrow> error + shot_config list) \<Rightarrow> string \<Rightarrow> string \<Rightarrow>
   string list option \<Rightarrow> AppMode \<Rightarrow> string \<Rightarrow> provider \<Rightarrow>
   (error + storyboard_shot list) \<times> provider" where
  "generateStoryboardShots cfg parse baseImage storyboardScript referenceProductImages mode
     aspectRatio w =
     (case phaseA cfg parse storyboardScript mode w of
        (shotsConfig, w') \<Rightarrow>
          phaseB cfg baseImage referenceProductImages aspectRatio shotsConfig w')"

subsection \<open>generateStoryVideo\<close>

definition storyVideoRequest :: "string \<Rightarrow> string list \<Rightarrow> video_request" where
  "storyVideoRequest script referenceImages =
     (let refsToUse = take 3 referenceImages;
          referenceImagesPayload =
            map (\<lambda>img. \<lparr>imageBytes = stripDataUrl img, ref_mimeType = ''image/png'',
                        referenceType = ''ASSET''\<rparr>) refsToUse
      in \<lparr>q_model = ''veo-3.1-generate-preview'',
          q_prompt = ''Cinematic video ad. Narration/Context: '' @ [CHR 0x22] @ script @
                     [CHR 0x22] @ ''. Style: High quality, coherent transition.'',
          q_numberOfVideos = 1,
          q_referenceImages =
            (if length referenceImagesPayload > 0 then Some referenceImagesPayload else None),
          q_resolution = ''720p'',
          q_aspectRatio = ''16:9''\<rparr>)"

text \<open>
  The polling loop \<^verbatim>\<open>while (!operation.done)\<close> has no bound: it ends when the provider
  reports the operation done or a poll throws, and may run forever. \<^term>\<open>None\<close> is the
  run that never returns.
\<close>

partial_function (option) pollLoop ::
  "provider \<Rightarrow> operation \<Rightarrow> ((error + operation) \<times> provider) option" where
  "pollLoop w opn =
     (if op_done opn then Some (Inr opn, w)
      else (case getVideosOperation opn w of
              (Inl e, w') \<Rightarrow> Some (Inl e, w')
            | (Inr opn', w') \<Rightarrow> pollLoop w' opn'))"

declare pollLoop.simps [code]

definition generateStoryVideo ::
  "string \<Rightarrow> string list \<Rightarrow> provider \<Rightarrow> ((error + string) \<times> provider) option" where
  "generateStoryVideo script referenceImages w =
     (case generateVideos (storyVideoRequest script referenceImages) w of
        (Inl e, w') \<Rightarrow> Some (Inl e, w')
      | (Inr opn, w') \<Rightarrow>
          (case pollLoop w' opn of
             None \<Rightarrow> None
           | Some (Inl e, w'') \<Rightarrow> Some (Inl e, w'')
           | Some (Inr finished, w'') \<Rightarrow>
               (case op_videoUri finished of
                  None \<Rightarrow> Some (Inl (Error ''Video generation failed''), w'')
                | Some videoUri \<Rightarrow>
                    (if videoUri = [] then Some (Inl (Error ''Video generation failed''), w'')
                     else Some (Inr videoUri, w'')))))"

section \<open>Views over History\<close>

subsection \<open>Image filters (StepVisualizer, StepProduction)\<close>

text \<open>
  The visualizer's strict filter, \<^verbatim>\<open>i.conceptId === concept.id && i.mode === currentMode\<close>,
  and the production view's, with the mode fixed to \<^verbatim>\<open>'video'\<close> (the production
  column is rendered in video mode only). An item without a mode equals no mode.
\<close>

definition currentHistoryImages ::
  "ImageHistoryItem list \<Rightarrow> SceneConcept \<Rightarrow> AppMode \<Rightarrow> ImageHistoryItem list" where
  "currentHistoryImages historyImgs concept currentMode =
     filter (\<lambda>i. i_conceptId i = c_id concept \<and> i_mode i = Some currentMode) historyImgs"

definition relevantImages ::
  "ImageHistoryItem list \<Rightarrow> SceneConcept \<Rightarrow> ImageHistoryItem list" where
  "relevantImages historyImgs concept =
     filter (\<lambda>img. i_conceptId img = c_id concept \<and> i_mode img = Some Video) historyImgs"

subsection \<open>Video groups (StepProduction)\<close>

text \<open>
  \<^verbatim>\<open>Array.from(new Set(xs))\<close>: the distinct elements of \<open>xs\<close>, each at its first
  occurrence.
\<close>

fun uniqueFrom :: "'a list \<Rightarrow> 'a list \<Rightarrow> 'a list" where
  "uniqueFrom seen [] = []"
| "uniqueFrom seen (x # xs) =
     (if x \<in> set seen then uniqueFrom seen xs else x # uniqueFrom (seen @ [x]) xs)"

definition groupKey :: "VideoHistoryItem \<Rightarrow> string" where
  "groupKey v = v_productName v @ v_conceptTitle v"

definition groupKeys :: "VideoHistoryItem list \<Rightarrow> string list" where
  "groupKeys historyVids =
     uniqueFrom [] (map groupKey (filter (\<lambda>v. v_mode v = Some Video) historyVids))"

definition groupVids :: "VideoHistoryItem list \<Rightarrow> string \<Rightarrow> VideoHistoryItem list" where
  "groupVids historyVids key =
     filter (\<lambda>v. groupKey v = key \<and> v_mode v = Some Video) historyVids"

text \<open>The rendered groups, in order: each key with the videos listed under it.\<close>

definition videoGroups :: "VideoHistoryItem list \<Rightarrow> (string \<times> VideoHistoryItem list) list" where
  "videoGroups historyVids = map (\<lambda>key. (key, groupVids historyVids key)) (groupKeys historyVids)"

section \<open>Concept generation in the ideation step (StepIdeation)\<close>

text \<open>
  The message shown after a failed run: empty, the permission message, or the failure
  message with the error's own text (\<open>GenerateFailedUnknown\<close> when the error has none).
\<close>

datatype ideation_error =
    NoError
  | PermissionDenied
  | GenerateFailed string
  | GenerateFailedUnknown

record IdeationState =
  loading :: bool
  ideationError :: ideation_error

text \<open>
  \<^verbatim>\<open>results.map((c, i) => ({...c, id, productName, creativeDirection, createdAt, mode}))\<close>.
  The spread keeps the generated fields; the five stamped fields replace whatever the
  parsed object had under those names. The clock is read twice per concept, for the id
  and then for \<open>createdAt\<close>: \<open>clock k\<close> is reading number \<open>k\<close> of this run.
\<close>

definition stamp :: "(nat \<Rightarrow> nat) \<Rightarrow> ProductInfo \<Rightarrow> AppMode \<Rightarrow> nat \<Rightarrow> raw_concept \<Rightarrow> SceneConcept" where
  "stamp clock brief currentMode i c =
     \<lparr>c_id = toString (clock (2 * i)) @ ''-'' @ toString i,
      c_title = rc_title c,
      c_description = rc_description c,
      c_script = rc_script c,
      c_storyboard = rc_storyboard c,
      c_visualPrompt = rc_visualPrompt c,
      c_productName = p_name brief,
      c_creativeDirection = p_creativeDirection brief,
      c_createdAt = clock (2 * i + 1),
      c_mode = Some currentMode\<rparr>"

definition withMeta ::
  "(nat \<Rightarrow> nat) \<Rightarrow> ProductInfo \<Rightarrow> AppMode \<Rightarrow> raw_concept list \<Rightarrow> SceneConcept list" where
  "withMeta clock brief currentMode results =
     map (\<lambda>(i, c). stamp clock brief currentMode i c) (enumerate 0 results)"

text \<open>\<^verbatim>\<open>err.toString()\<close> of an \<^verbatim>\<open>Error\<close> and the message chosen in the \<^verbatim>\<open>catch\<close> block.\<close>

fun errorToString :: "error \<Rightarrow> string" where
  "errorToString (Error msg) = (if msg = [] then ''Error'' else ''Error: '' @ msg)"

fun errorMessage :: "error \<Rightarrow> string" where
  "errorMessage (Error msg) = msg"

definition ideationFailure :: "error \<Rightarrow> ideation_error" where
  "ideationFailure err =
     (if js_includes (errorToString err) ''403'' \<or>
         js_includes (errorToString err) ''PERMISSION_DENIED''
      then PermissionDenied
      else if errorMessage err = [] then GenerateFailedUnknown
      else GenerateFailed (errorMessage err))"

text \<open>
  \<^verbatim>\<open>handleGenerate\<close>: one run of concept generation from the ideation step. It returns
  the step's own state, the App state after \<^verbatim>\<open>onNewConcepts\<close> (that is
  \<^verbatim>\<open>addHistoryConcept\<close>), and the provider.
\<close>

definition handleGenerate ::
  "(string \<Rightarrow> error + raw_concept list) \<Rightarrow> (nat \<Rightarrow> nat) \<Rightarrow> ProductInfo \<Rightarrow> AppMode \<Rightarrow>
   AppState \<Rightarrow> provider \<Rightarrow> IdeationState \<times> AppState \<times> provider" where
  "handleGenerate parse clock brief currentMode app w =
     (case generateConcepts (appConfig app) parse (p_name brief) (p_description brief)
             (p_creativeDirection brief) (p_userImages brief) currentMode w of
        (Inr results, w') \<Rightarrow>
          (\<lparr>loading = False, ideationError = NoError\<rparr>,
           addHistoryConcept (withMeta clock brief currentMode results) app, w')
      | (Inl err, w') \<Rightarrow>
          (\<lparr>loading = False, ideationError = ideationFailure err\<rparr>, app, w'))"

section \<open>Example inputs\<close>

text \<open>
  Concrete briefs, History items and providers on which the theorems below are
  evaluated. \<open>ex_provider\<close> answers every text call with the given answer, fails the
  image calls whose call numbers are listed and answers the others with one image, and
  reports a video operation done, with a URI, at the first poll.
\<close>

definition ex_provider :: "(error + text_response) \<Rightarrow> nat list \<Rightarrow> provider" where
  "ex_provider textAnswer failing =
     \<lparr>textGenerate = (\<lambda>n req. textAnswer),
      imageGenerate = (\<lambda>n req.
        if n \<in> set failing then Inl (Error ''503 overloaded'')
        else Inr \<lparr>r_parts = Some [OtherPart, ImagePart (''img'' @ toString n)]\<rparr>),
      videoGenerate = (\<lambda>n req. Inr \<lparr>op_done = False, op_videoUri = None\<rparr>),
      pollOperation = (\<lambda>n opn. Inr \<lparr>op_done = True, op_videoUri = Some ''https://video/1''\<rparr>),
      calls = []\<rparr>"

text \<open>A provider whose responses carry no payload: no text, no image part, no video URI.\<close>

definition ex_emptyProvider :: provider where
  "ex_emptyProvider =
     \<lparr>textGenerate = (\<lambda>n req. Inr \<lparr>r_text = None\<rparr>),
      imageGenerate = (\<lambda>n req. Inr \<lparr>r_parts = Some [OtherPart]\<rparr>),
      videoGenerate = (\<lambda>n req. Inr \<lparr>op_done = False, op_videoUri = None\<rparr>),
      pollOperation = (\<lambda>n opn. Inr \<lparr>op_done = True, op_videoUri = None\<rparr>),
      calls = []\<rparr>"


definition ex_shot :: "string \<Rightarrow> shot_config" where
  "ex_shot l = \<lparr>s_label = l, s_instruction = ''Render '' @ l\<rparr>"

text \<open>A stand-in for \<^verbatim>\<open>JSON.parse\<close> on shot lists, defined on the texts the examples use.\<close>

definition ex_parseShots :: "string \<Rightarrow> error + shot_config list" where
  "ex_parseShots t =
     (if t = ''[]'' then Inr []
      else if t = ''three'' then Inr [ex_shot ''A'', ex_shot ''B'', ex_shot ''C'']
      else if t = ''five'' then
        Inr [ex_shot ''A'', ex_shot ''B'', ex_shot ''C'', ex_shot ''D'', ex_shot ''E'']
      else Inl (Error ''SyntaxError''))"

text \<open>A parse result of four descriptors in which two carry the same label.\<close>

definition ex_parseDuplicates :: "string \<Rightarrow> error + shot_config list" where
  "ex_parseDuplicates t = Inr [ex_shot ''A'', ex_shot ''A'', ex_shot ''B'', ex_shot ''C'']"

definition ex_concept :: "string \<Rightarrow> raw_concept" where
  "ex_concept t =
     \<lparr>rc_id = None, rc_title = t, rc_description = ''About '' @ t, rc_script = ''Say '' @ t,
      rc_storyboard = ''Shots of '' @ t, rc_visualPrompt = ''Photo of '' @ t\<rparr>"

definition ex_parseConcepts :: "string \<Rightarrow> error + raw_concept list" where
  "ex_parseConcepts t =
     (if t = ''two'' then Inr [ex_concept ''One'', ex_concept ''Two'']
      else if t = ''three'' then Inr [ex_concept ''One'', ex_concept ''Two'', ex_concept ''Three'']
      else Inl (Error ''SyntaxError''))"

definition ex_brief :: ProductInfo where
  "ex_brief =
     \<lparr>p_name = ''Compact Juicer'', p_description = ''A small juicer'',
      p_creativeDirection = ''Emotional'', p_userImages = None\<rparr>"

definition ex_clock :: "nat \<Rightarrow> nat" where
  "ex_clock k = 1000 + k"

definition ex_video :: "string \<Rightarrow> string \<Rightarrow> string \<Rightarrow> VideoHistoryItem" where
  "ex_video ident productName conceptTitle =
     \<lparr>v_id = ident, v_uri = ''https://video/'' @ ident, v_blobUrl = ''blob:'' @ ident,
      v_productName = productName, v_creativeDirection = ''Emotional'',
      v_conceptTitle = conceptTitle, v_createdAt = 1000, v_mode = Some Video\<rparr>"

definition ex_image :: "string \<Rightarrow> string \<Rightarrow> AppMode option \<Rightarrow> ImageHistoryItem" where
  "ex_image ident conceptId mode =
     \<lparr>i_id = ident, i_base64 = ''data:image/png;base64,'' @ ident, i_prompt = ''p'',
      i_productName = ''Compact Juicer'', i_creativeDirection = ''Emotional'',
      i_conceptTitle = ''Title'', i_conceptId = conceptId, i_createdAt = 1000, i_mode = mode\<rparr>"

definition ex_sceneConcept :: "string \<Rightarrow> SceneConcept" where
  "ex_sceneConcept ident =
     \<lparr>c_id = ident, c_title = ''Title'', c_description = ''d'', c_script = ''s'',
      c_storyboard = ''b'', c_visualPrompt = ''v'', c_productName = ''Compact Juicer'',
      c_creativeDirection = ''Emotional'', c_createdAt = 1000, c_mode = Some Video\<rparr>"

section \<open>History is append-only\<close>

lemmas handler_defs =
  handleSaveConfig_def handleAddToLibrary_def addHistoryConcept_def addHistoryImage_def
  addHistoryVideo_def handleModeChange_def onNext_def onSelect_def

lemma step_history_suffix:
  "suffix (historyConcepts s) (historyConcepts (step s x))"
  "suffix (historyImages s) (historyImages (step s x))"
  "suffix (historyVideos s) (historyVideos (step s x))"
  by (cases x; simp add: handler_defs Let_def suffix_def)+

lemma run_history_suffix:
  "suffix (historyConcepts s) (historyConcepts (run s ops)) \<and>
   suffix (historyImages s) (historyImages (run s ops)) \<and>
   suffix (historyVideos s) (historyVideos (run s ops))"
proof (induction ops arbitrary: s)
  case Nil
  show ?case by (simp add: run_def)
next
  case (Cons x xs)
  have "run s (x # xs) = run (step s x) xs" by (simp add: run_def)
  with Cons [of "step s x"] step_history_suffix [of s x]
  show ?case by (metis suffix_order.trans)
qed

text \<open>
  C6. Each add operation prepends to its collection, and over every sequence of
  operations each History collection keeps all its entries, unchanged and in place at the
  tail of the new collection, so its size never decreases.
\<close>

theorem history_append_only:
  "historyConcepts (addHistoryConcept concepts s) = concepts @ historyConcepts s \<and>
   historyImages (addHistoryImage img s) = img # historyImages s \<and>
   historyVideos (addHistoryVideo vid s) = vid # historyVideos s \<and>
   suffix (historyConcepts s) (historyConcepts (run s ops)) \<and>
   suffix (historyImages s) (historyImages (run s ops)) \<and>
   suffix (historyVideos s) (historyVideos (run s ops)) \<and>
   length (historyConcepts s) \<le> length (historyConcepts (run s ops)) \<and>
   length (historyImages s) \<le> length (historyImages (run s ops)) \<and>
   length (historyVideos s) \<le> length (historyVideos (run s ops))"
  using run_history_suffix [of s ops]
  by (auto simp: handler_defs dest: suffix_length_le)

section \<open>Mode change\<close>

text \<open>
  C7. A mode change clears the selected concept and the active image, installs the new
  mode, and leaves every other cell as it was: the product brief, the three History
  collections (so their sizes too), the configuration, the library and the two dialog
  flags.
\<close>

theorem mode_change_frame:
  "selectedConcept (handleModeChange mode s) = None \<and>
   generatedImage (handleModeChange mode s) = None \<and>
   appMode (handleModeChange mode s) = mode \<and>
   product (handleModeChange mode s) = product s \<and>
   historyConcepts (handleModeChange mode s) = historyConcepts s \<and>
   historyImages (handleModeChange mode s) = historyImages s \<and>
   historyVideos (handleModeChange mode s) = historyVideos s \<and>
   length (historyConcepts (handleModeChange mode s)) = length (historyConcepts s) \<and>
   length (historyImages (handleModeChange mode s)) = length (historyImages s) \<and>
   length (historyVideos (handleModeChange mode s)) = length (historyVideos s) \<and>
   appConfig (handleModeChange mode s) = appConfig s \<and>
   libraryAssets (handleModeChange mode s) = libraryAssets s \<and>
   isSettingsOpen (handleModeChange mode s) = isSettingsOpen s \<and>
   isLibraryOpen (handleModeChange mode s) = isLibraryOpen s"
  by (simp add: handleModeChange_def)

section \<open>Appending an image also activates it\<close>

text \<open>
  C10. \<^verbatim>\<open>addHistoryImage\<close> prepends the item to the image History and, in the same
  step, makes the item's payload the active generated image; nothing else changes. So
  after any sequence of operations that ends with an image append, the active image is
  the payload of the item just appended, which is the head of the image History.
\<close>

theorem add_image_sets_active:
  "historyImages (addHistoryImage img s) = img # historyImages s \<and>
   generatedImage (addHistoryImage img s) = Some (i_base64 img) \<and>
   generatedImage (run s (ops @ [AddHistoryImage img])) = Some (i_base64 img) \<and>
   generatedImage (run s (ops @ [AddHistoryImage img])) =
     Some (i_base64 (hd (historyImages (run s (ops @ [AddHistoryImage img]))))) \<and>
   addHistoryImage img s =
     s\<lparr>historyImages := img # historyImages s, generatedImage := Some (i_base64 img)\<rparr> \<and>
   product (addHistoryImage img s) = product s \<and>
   selectedConcept (addHistoryImage img s) = selectedConcept s \<and>
   appMode (addHistoryImage img s) = appMode s \<and>
   historyConcepts (addHistoryImage img s) = historyConcepts s \<and>
   historyVideos (addHistoryImage img s) = historyVideos s"
  by (simp add: addHistoryImage_def run_def)

section \<open>Strict image filters\<close>

text \<open>
  C3. An item of the image History is in the visualizer's filtered view exactly when its
  concept id is the active concept's and its mode is the active mode; the production
  view's filter is the same filter at mode video, the only mode in which that view is
  shown. So a matching item is always included, and no item with another concept id or
  another mode (or none) ever is; nothing outside History is included either.
\<close>

theorem strict_image_filter:
  "(a \<in> set (currentHistoryImages historyImgs concept currentMode) \<longleftrightarrow>
      a \<in> set historyImgs \<and> i_conceptId a = c_id concept \<and> i_mode a = Some currentMode) \<and>
   (a \<in> set (relevantImages historyImgs concept) \<longleftrightarrow>
      a \<in> set historyImgs \<and> i_conceptId a = c_id concept \<and> i_mode a = Some Video) \<and>
   relevantImages historyImgs concept = currentHistoryImages historyImgs concept Video"
  by (auto simp: currentHistoryImages_def relevantImages_def)

section \<open>Video groups\<close>

text \<open>
  C4. The group key is the product name followed directly by the concept title, with
  nothing between them. Two videos with the different pairs (ab, c) and (a, bc) both get
  the key abc: the display shows one group holding both.
\<close>

theorem video_groups_merge_distinct_pairs:
  "videoGroups [ex_video ''1'' ''ab'' ''c'', ex_video ''2'' ''a'' ''bc''] =
     [(''abc'', [ex_video ''1'' ''ab'' ''c'', ex_video ''2'' ''a'' ''bc''])] \<and>
   (v_productName (ex_video ''1'' ''ab'' ''c''), v_conceptTitle (ex_video ''1'' ''ab'' ''c'')) \<noteq>
   (v_productName (ex_video ''2'' ''a'' ''bc''), v_conceptTitle (ex_video ''2'' ''a'' ''bc''))"
  by (simp add: videoGroups_def groupKeys_def groupVids_def groupKey_def ex_video_def)

section \<open>Concept generation\<close>

lemma length_withMeta: "length (withMeta clock brief currentMode results) = length results"
  by (simp add: withMeta_def)

lemma nth_withMeta:
  "i < length results \<Longrightarrow>
   withMeta clock brief currentMode results ! i = stamp clock brief currentMode i (results ! i)"
  by (simp add: withMeta_def nth_enumerate_eq)

lemmas concepts_eval =
  generateConcepts_def generateContentText_def conceptsRequest_def nonEmptyImages_def
  ex_provider_def ex_parseConcepts_def ex_brief_def initialState_def

text \<open>
  C5, as the code has it. The number of concepts is not fixed by the code: the prompt asks
  for 3, and the parsed list is taken as it comes. Here the provider answers with two
  concepts and two are appended to History.
\<close>

theorem two_concepts_counterexample:
  "length (historyConcepts (fst (snd (handleGenerate ex_parseConcepts ex_clock ex_brief Video
      initialState (ex_provider (Inr \<lparr>r_text = Some ''two''\<rparr>) []))))) = 2"
  by (simp add: handleGenerate_def addHistoryConcept_def withMeta_def concepts_eval)

text \<open>
  C5, amended. When concept generation succeeds with the parsed list \<open>results\<close>, the
  caller puts exactly one stamped concept per item of \<open>results\<close> at the front of the
  concept History, in order, the older entries following unchanged. Concept \<open>i\<close> carries
  the synthetic id made of a clock reading and \<open>i\<close>, the brief's name as product name, the
  brief's direction, the current mode and a clock reading as creation time, and keeps the
  generated title, description, script, storyboard and visual prompt.
\<close>

theorem concepts_stamped:
  assumes "generateConcepts (appConfig app) parse (p_name brief) (p_description brief)
             (p_creativeDirection brief) (p_userImages brief) currentMode w = (Inr results, w')"
  shows "length (historyConcepts (fst (snd (handleGenerate parse clock brief currentMode app w)))) =
           length results + length (historyConcepts app) \<and>
         drop (length results)
           (historyConcepts (fst (snd (handleGenerate parse clock brief currentMode app w)))) =
           historyConcepts app \<and>
         (\<forall>i < length results.
            c_id (historyConcepts (fst (snd (handleGenerate parse clock brief currentMode app w))) ! i) =
              toString (clock (2 * i)) @ ''-'' @ toString i \<and>
            c_productName (historyConcepts (fst (snd (handleGenerate parse clock brief currentMode app w))) ! i) =
              p_name brief \<and>
            c_creativeDirection (historyConcepts (fst (snd (handleGenerate parse clock brief currentMode app w))) ! i) =
              p_creativeDirection brief \<and>
            c_mode (historyConcepts (fst (snd (handleGenerate parse clock brief currentMode app w))) ! i) =
              Some currentMode \<and>
            c_createdAt (historyConcepts (fst (snd (handleGenerate parse clock brief currentMode app w))) ! i) =
              clock (2 * i + 1) \<and>
            c_title (historyConcepts (fst (snd (handleGenerate parse clock brief currentMode app w))) ! i) =
              rc_title (results ! i) \<and>
            c_description (historyConcepts (fst (snd (handleGenerate parse clock brief currentMode app w))) ! i) =
              rc_description (results ! i) \<and>
            c_script (historyConcepts (fst (snd (handleGenerate parse clock brief currentMode app w))) ! i) =
              rc_script (results ! i) \<and>
            c_storyboard (historyConcepts (fst (snd (handleGenerate parse clock brief currentMode app w))) ! i) =
              rc_storyboard (results ! i) \<and>
            c_visualPrompt (historyConcepts (fst (snd (handleGenerate parse clock brief currentMode app w))) ! i) =
              rc_visualPrompt (results ! i))"
proof -
  let ?new = "withMeta clock brief currentMode results"
  have h: "historyConcepts (fst (snd (handleGenerate parse clock brief currentMode app w))) =
             ?new @ historyConcepts app"
    using assms by (simp add: handleGenerate_def addHistoryConcept_def)
  have n: "length ?new = length results" by (rule length_withMeta)
  show ?thesis
    unfolding h using n by (simp add: nth_append nth_withMeta stamp_def)
qed

theorem concepts_stamped_witness:
  "p_name ex_brief \<noteq> [] \<and> p_description ex_brief \<noteq> [] \<and>
   length (historyConcepts (fst (snd (handleGenerate ex_parseConcepts ex_clock ex_brief Video
      initialState (ex_provider (Inr \<lparr>r_text = Some ''three''\<rparr>) []))))) = 3 \<and>
   c_id (historyConcepts (fst (snd (handleGenerate ex_parseConcepts ex_clock ex_brief Video
      initialState (ex_provider (Inr \<lparr>r_text = Some ''three''\<rparr>) [])))) ! 2) = ''1004-2'' \<and>
   c_productName (historyConcepts (fst (snd (handleGenerate ex_parseConcepts ex_clock ex_brief
      Video initialState (ex_provider (Inr \<lparr>r_text = Some ''three''\<rparr>) [])))) ! 2) =
     ''Compact Juicer'' \<and>
   c_creativeDirection (historyConcepts (fst (snd (handleGenerate ex_parseConcepts ex_clock
      ex_brief Video initialState (ex_provider (Inr \<lparr>r_text = Some ''three''\<rparr>) [])))) ! 2) =
     ''Emotional'' \<and>
   c_mode (historyConcepts (fst (snd (handleGenerate ex_parseConcepts ex_clock ex_brief
      Video initialState (ex_provider (Inr \<lparr>r_text = Some ''three''\<rparr>) [])))) ! 2) =
     Some Video \<and>
   c_createdAt (historyConcepts (fst (snd (handleGenerate ex_parseConcepts ex_clock ex_brief
      Video initialState (ex_provider (Inr \<lparr>r_text = Some ''three''\<rparr>) [])))) ! 2) = 1005 \<and>
   c_title (historyConcepts (fst (snd (handleGenerate ex_parseConcepts ex_clock ex_brief
      Video initialState (ex_provider (Inr \<lparr>r_text = Some ''three''\<rparr>) [])))) ! 2) = ''Three''"
proof -
  let ?w = "ex_provider (Inr \<lparr>r_text = Some ''three''\<rparr>) []"
  let ?results = "[ex_concept ''One'', ex_concept ''Two'', ex_concept ''Three'']"
  have run: "generateConcepts (appConfig initialState) ex_parseConcepts (p_name ex_brief)
               (p_description ex_brief) (p_creativeDirection ex_brief) (p_userImages ex_brief)
               Video ?w =
             (Inr ?results, ?w\<lparr>calls := [TextCall (conceptsRequest DEFAULT_CONFIG ''Compact Juicer''
                 ''A small juicer'' ''Emotional'' None Video)]\<rparr>)"
    by (simp add: generateConcepts_def generateContentText_def ex_provider_def
          ex_parseConcepts_def ex_brief_def initialState_def)
  note st = concepts_stamped [OF run, of ex_clock]
  have ids: "toString (ex_clock (2 * 2)) = ''1004'' \<and> toString 2 = ''2'' \<and>
             ex_clock (2 * 2 + 1) = 1005"
    by (simp add: ex_clock_def toString.simps)
  have two: "(2::nat) < length ?results" by simp
  from st have len: "length (historyConcepts (fst (snd (handleGenerate ex_parseConcepts ex_clock
      ex_brief Video initialState ?w)))) = 3"
    by (simp add: initialState_def)
  from st two have at2: "c_id (historyConcepts (fst (snd (handleGenerate ex_parseConcepts ex_clock ex_brief Video
      initialState ?w))) ! 2) = toString (ex_clock (2 * 2)) @ ''-'' @ toString 2 \<and>
     c_productName (historyConcepts (fst (snd (handleGenerate ex_parseConcepts ex_clock ex_brief Video
      initialState ?w))) ! 2) = p_name ex_brief \<and>
     c_creativeDirection (historyConcepts (fst (snd (handleGenerate ex_parseConcepts ex_clock ex_brief Video
      initialState ?w))) ! 2) = p_creativeDirection ex_brief \<and>
     c_mode (historyConcepts (fst (snd (handleGenerate ex_parseConcepts ex_clock ex_brief Video
      initialState ?w))) ! 2) = Some Video \<and>
     c_createdAt (historyConcepts (fst (snd (handleGenerate ex_parseConcepts ex_clock ex_brief Video
      initialState ?w))) ! 2) = ex_clock (2 * 2 + 1) \<and>
     c_title (historyConcepts (fst (snd (handleGenerate ex_parseConcepts ex_clock ex_brief Video
      initialState ?w))) ! 2) = rc_title (?results ! 2)"
    by blast
  show ?thesis
    using len at2 ids by (simp add: ex_brief_def ex_concept_def)
qed

section \<open>Storyboard decomposition\<close>

subsection \<open>Phase A\<close>

lemma tryParse_world:
  "snd (tryParse cfg parse script mode w) =
     w\<lparr>calls := calls w @ [TextCall (parseRequest cfg script mode)]\<rparr>"
  by (simp add: tryParse_def generateContentText_def split: sum.splits option.splits)

lemma phaseA_world:
  "snd (phaseA cfg parse script mode w) =
     w\<lparr>calls := calls w @ [TextCall (parseRequest cfg script mode)]\<rparr>"
  using tryParse_world [of cfg parse script mode w]
  by (cases "tryParse cfg parse script mode w") (simp add: phaseA_def)

lemma phaseA_shots:
  "fst (phaseA cfg parse script mode w) =
     (if fst (tryParse cfg parse script mode w) = [] then defaultShots
      else fst (tryParse cfg parse script mode w))"
  by (simp add: phaseA_def split: prod.splits)

lemma defaultShots_length: "length defaultShots = 4"
  by (simp add: defaultShots_def)

lemmas phaseA_eval =
  phaseA_def tryParse_def generateContentText_def ex_provider_def ex_emptyProvider_def
  ex_parseShots_def

text \<open>
  C1, as the code has it. The fallback is taken on an empty list only. When the provider's
  response parses to three descriptors, Phase A hands those three to Phase B.
\<close>

theorem phaseA_three_counterexample:
  "length (fst (phaseA DEFAULT_CONFIG ex_parseShots ''script'' Video
      (ex_provider (Inr \<lparr>r_text = Some ''three''\<rparr>) []))) = 3"
  by (simp add: phaseA_eval)

text \<open>
  C1, amended. Phase A makes one text call. It yields the default set of 4 shots when the
  call fails, when the response has no text, when the text does not parse, and when it
  parses to an empty list; it yields the parsed list as it is, whatever its length, when
  that list is not empty. So the list handed to Phase B is never empty.
\<close>

theorem phaseA_descriptors:
  "fst (phaseA cfg parse script mode w) \<noteq> [] \<and>
   length defaultShots = 4 \<and>
   calls (snd (phaseA cfg parse script mode w)) =
     calls w @ [TextCall (parseRequest cfg script mode)] \<and>
   (\<forall>e. textGenerate w (length (calls w)) (parseRequest cfg script mode) = Inl e \<longrightarrow>
        fst (phaseA cfg parse script mode w) = defaultShots) \<and>
   (\<forall>response. textGenerate w (length (calls w)) (parseRequest cfg script mode) = Inr response \<longrightarrow>
        (\<not> truthy (r_text response) \<longrightarrow> fst (phaseA cfg parse script mode w) = defaultShots) \<and>
        (\<forall>t. r_text response = Some t \<and> t \<noteq> [] \<longrightarrow>
           (\<forall>e. parse t = Inl e \<longrightarrow> fst (phaseA cfg parse script mode w) = defaultShots) \<and>
           (parse t = Inr [] \<longrightarrow> fst (phaseA cfg parse script mode w) = defaultShots) \<and>
           (\<forall>parsed. parse t = Inr parsed \<and> parsed \<noteq> [] \<longrightarrow>
              fst (phaseA cfg parse script mode w) = parsed)))"
proof -
  have nonempty: "fst (phaseA cfg parse script mode w) \<noteq> []"
    using defaultShots_length by (auto simp: phaseA_shots)
  have log: "calls (snd (phaseA cfg parse script mode w)) =
               calls w @ [TextCall (parseRequest cfg script mode)]"
    by (simp add: phaseA_world)
  have failed: "\<forall>e. textGenerate w (length (calls w)) (parseRequest cfg script mode) = Inl e \<longrightarrow>
                  fst (phaseA cfg parse script mode w) = defaultShots"
    by (simp add: phaseA_shots tryParse_def generateContentText_def)
  have answered:
    "\<forall>response. textGenerate w (length (calls w)) (parseRequest cfg script mode) = Inr response \<longrightarrow>
        (\<not> truthy (r_text response) \<longrightarrow> fst (phaseA cfg parse script mode w) = defaultShots) \<and>
        (\<forall>t. r_text response = Some t \<and> t \<noteq> [] \<longrightarrow>
           (\<forall>e. parse t = Inl e \<longrightarrow> fst (phaseA cfg parse script mode w) = defaultShots) \<and>
           (parse t = Inr [] \<longrightarrow> fst (phaseA cfg parse script mode w) = defaultShots) \<and>
           (\<forall>parsed. parse t = Inr parsed \<and> parsed \<noteq> [] \<longrightarrow>
              fst (phaseA cfg parse script mode w) = parsed))"
    by (auto simp: phaseA_shots tryParse_def generateContentText_def split: option.splits)
  from nonempty defaultShots_length log failed answered show ?thesis by blast
qed

theorem phaseA_descriptors_witness:
  "fst (phaseA DEFAULT_CONFIG ex_parseShots ''script'' Video
      (ex_provider (Inl (Error ''network'')) [])) = defaultShots \<and>
   fst (phaseA DEFAULT_CONFIG ex_parseShots ''script'' Video ex_emptyProvider) = defaultShots \<and>
   fst (phaseA DEFAULT_CONFIG ex_parseShots ''script'' Video
      (ex_provider (Inr \<lparr>r_text = Some ''not json''\<rparr>) [])) = defaultShots \<and>
   fst (phaseA DEFAULT_CONFIG ex_parseShots ''script'' Video
      (ex_provider (Inr \<lparr>r_text = Some ''[]''\<rparr>) [])) = defaultShots \<and>
   fst (phaseA DEFAULT_CONFIG ex_parseShots ''script'' Video
      (ex_provider (Inr \<lparr>r_text = Some ''five''\<rparr>) [])) =
     [ex_shot ''A'', ex_shot ''B'', ex_shot ''C'', ex_shot ''D'', ex_shot ''E''] \<and>
   length defaultShots = 4"
proof -
  have a: "fst (phaseA DEFAULT_CONFIG ex_parseShots ''script'' Video
             (ex_provider (Inl (Error ''network'')) [])) = defaultShots"
    using phaseA_descriptors [of DEFAULT_CONFIG ex_parseShots "''script''" Video
            "ex_provider (Inl (Error ''network'')) []"]
    by (simp add: ex_provider_def)
  have b: "fst (phaseA DEFAULT_CONFIG ex_parseShots ''script'' Video ex_emptyProvider) =
             defaultShots"
    using phaseA_descriptors [of DEFAULT_CONFIG ex_parseShots "''script''" Video ex_emptyProvider]
    by (simp add: ex_emptyProvider_def)
  have c: "fst (phaseA DEFAULT_CONFIG ex_parseShots ''script'' Video
             (ex_provider (Inr \<lparr>r_text = Some ''not json''\<rparr>) [])) = defaultShots"
    using phaseA_descriptors [of DEFAULT_CONFIG ex_parseShots "''script''" Video
            "ex_provider (Inr \<lparr>r_text = Some ''not json''\<rparr>) []"]
    by (simp add: ex_provider_def ex_parseShots_def)
  have d: "fst (phaseA DEFAULT_CONFIG ex_parseShots ''script'' Video
             (ex_provider (Inr \<lparr>r_text = Some ''[]''\<rparr>) [])) = defaultShots"
    using phaseA_descriptors [of DEFAULT_CONFIG ex_parseShots "''script''" Video
            "ex_provider (Inr \<lparr>r_text = Some ''[]''\<rparr>) []"]
    by (simp add: ex_provider_def ex_parseShots_def)
  have e: "fst (phaseA DEFAULT_CONFIG ex_parseShots ''script'' Video
             (ex_provider (Inr \<lparr>r_text = Some ''five''\<rparr>) [])) =
           [ex_shot ''A'', ex_shot ''B'', ex_shot ''C'', ex_shot ''D'', ex_shot ''E'']"
    using phaseA_descriptors [of DEFAULT_CONFIG ex_parseShots "''script''" Video
            "ex_provider (Inr \<lparr>r_text = Some ''five''\<rparr>) []"]
    by (simp add: ex_provider_def ex_parseShots_def)
  from a b c d e defaultShots_length show ?thesis by blast
qed

subsection \<open>Phase B\<close>

lemma editSceneImage_world:
  "snd (editSceneImage cfg b ins r a w) =
     w\<lparr>calls := calls w @ [ImageCall (editRequest cfg b ins r a)]\<rparr>"
  by (simp add: editSceneImage_def generateContentImage_def split: sum.splits option.splits)

lemma shotSlot_Cons_0:
  "shotSlot cfg b r a w (shot # rest) 0 =
     (case fst (editSceneImage cfg b (s_instruction shot) r a w) of
        Inr result \<Rightarrow> Some \<lparr>sh_label = s_label shot, sh_base64 = result,
                             sh_instruction = s_instruction shot\<rparr>
      | Inl e \<Rightarrow> None)"
  by (simp add: shotSlot_def split: sum.splits)

lemma shotSlot_Cons_Suc:
  "shotSlot cfg b r a w (shot # rest) (Suc i) =
   shotSlot cfg b r a (w\<lparr>calls := calls w @ [shotCall cfg b r a shot]\<rparr>) rest i"
  by (simp add: shotSlot_def split: sum.splits)

lemma renderShots_slots:
  "renderShots cfg b r a shots w =
     (map (shotSlot cfg b r a w shots) [0..<length shots],
      w\<lparr>calls := calls w @ map (shotCall cfg b r a) shots\<rparr>)"
proof (induction shots arbitrary: w)
  case Nil
  show ?case by simp
next
  case (Cons shot rest)
  let ?w1 = "w\<lparr>calls := calls w @ [shotCall cfg b r a shot]\<rparr>"
  have w1: "snd (editSceneImage cfg b (s_instruction shot) r a w) = ?w1"
    by (simp add: editSceneImage_world shotCall_def)
  have idx: "[0..<length (shot # rest)] = 0 # map Suc [0..<length rest]"
    by (simp add: upt_conv_Cons map_Suc_upt del: upt_Suc)
  show ?case
    unfolding idx
    using w1 Cons.IH [of ?w1]
    by (simp add: shotSlot_Cons_0 shotSlot_Cons_Suc split_beta Let_def comp_def del: upt_Suc)
qed

lemma notNull_map:
  "notNull (map f xs) = map (the \<circ> f) (filter (\<lambda>x. f x \<noteq> None) xs)"
  by (induction xs) (auto simp: notNull_def)

lemma shotSlot_fields:
  "shotSlot cfg b r a w shots i = Some x \<Longrightarrow>
   sh_label x = s_label (shots ! i) \<and> sh_instruction x = s_instruction (shots ! i)"
  by (auto simp: shotSlot_def split: sum.splits)

lemma slots_labels:
  "map sh_label (notNull (map (shotSlot cfg b r a w shots) is)) =
     map (\<lambda>i. s_label (shots ! i)) (filter (\<lambda>i. shotSlot cfg b r a w shots i \<noteq> None) is) \<and>
   map sh_instruction (notNull (map (shotSlot cfg b r a w shots) is)) =
     map (\<lambda>i. s_instruction (shots ! i)) (filter (\<lambda>i. shotSlot cfg b r a w shots i \<noteq> None) is)"
  by (induction "is") (auto simp: notNull_def dest: shotSlot_fields)

lemma phaseB_slots:
  "phaseB cfg b refs a shots w =
     (Inr (notNull (map (shotSlot cfg b (primaryReference refs) a w shots) [0..<length shots])),
      w\<lparr>calls := calls w @ map (shotCall cfg b (primaryReference refs) a) shots\<rparr>)"
  by (simp add: phaseB_def renderShots_slots Let_def)

lemma upt_four: "[0..<4] = [0, 1, 2, 3]"
  by (simp add: upt_rec)

lemma four_elems: "length xs = 4 \<Longrightarrow> \<exists>a b c d. xs = [a, b, c, d]"
  by (auto simp: numeral_eq_Suc length_Suc_conv)

lemma others_of_four:
  assumes "length xs = 4" and "k < 4"
  shows "map (\<lambda>i. f (xs ! i)) (filter (\<lambda>i. i \<noteq> k) [0, 1, 2, 3]) =
           map f (take k xs @ drop (Suc k) xs)"
proof -
  from assms(1) obtain a b c d where xs: "xs = [a, b, c, d]"
    using four_elems by blast
  from assms(2) have "k = 0 \<or> k = 1 \<or> k = 2 \<or> k = 3" by arith
  then show ?thesis unfolding xs by (elim disjE) simp_all
qed

lemma distinct_others:
  assumes "distinct xs" and "k < length xs"
  shows "xs ! k \<notin> set (take k xs @ drop (Suc k) xs)"
proof -
  have "xs = take k xs @ xs ! k # drop (Suc k) xs"
    using assms(2) by (rule id_take_nth_drop)
  then have "distinct (take k xs @ xs ! k # drop (Suc k) xs)"
    using assms(1) by simp
  then show ?thesis by auto
qed

text \<open>
  C2, as the code has it. Nothing keeps the labels of parsed descriptors apart. Here the
  parse yields the labels A, A, B, C, the edit call of the first shot fails and the three
  others succeed: the result has the labels A, B, C, so the label of the failed shot is
  still in it, on the second shot.
\<close>

theorem duplicate_labels_counterexample:
  "fst (phaseA DEFAULT_CONFIG ex_parseDuplicates ''script'' Video
          (ex_provider (Inr \<lparr>r_text = Some ''shots''\<rparr>) [1])) =
     [ex_shot ''A'', ex_shot ''A'', ex_shot ''B'', ex_shot ''C''] \<and>
   shotSlot DEFAULT_CONFIG ''base'' None ''16:9''
     (snd (phaseA DEFAULT_CONFIG ex_parseDuplicates ''script'' Video
             (ex_provider (Inr \<lparr>r_text = Some ''shots''\<rparr>) [1])))
     [ex_shot ''A'', ex_shot ''A'', ex_shot ''B'', ex_shot ''C''] 0 = None \<and>
   shotSlot DEFAULT_CONFIG ''base'' None ''16:9''
     (snd (phaseA DEFAULT_CONFIG ex_parseDuplicates ''script'' Video
             (ex_provider (Inr \<lparr>r_text = Some ''shots''\<rparr>) [1])))
     [ex_shot ''A'', ex_shot ''A'', ex_shot ''B'', ex_shot ''C''] 1 \<noteq> None \<and>
   shotSlot DEFAULT_CONFIG ''base'' None ''16:9''
     (snd (phaseA DEFAULT_CONFIG ex_parseDuplicates ''script'' Video
             (ex_provider (Inr \<lparr>r_text = Some ''shots''\<rparr>) [1])))
     [ex_shot ''A'', ex_shot ''A'', ex_shot ''B'', ex_shot ''C''] 2 \<noteq> None \<and>
   shotSlot DEFAULT_CONFIG ''base'' None ''16:9''
     (snd (phaseA DEFAULT_CONFIG ex_parseDuplicates ''script'' Video
             (ex_provider (Inr \<lparr>r_text = Some ''shots''\<rparr>) [1])))
     [ex_shot ''A'', ex_shot ''A'', ex_shot ''B'', ex_shot ''C''] 3 \<noteq> None \<and>
   fst (generateStoryboardShots DEFAULT_CONFIG ex_parseDuplicates ''base'' ''script'' None Video
          ''16:9'' (ex_provider (Inr \<lparr>r_text = Some ''shots''\<rparr>) [1])) =
     Inr [\<lparr>sh_label = ''A'', sh_base64 = ''data:image/png;base64,img2'',
            sh_instruction = ''Render A''\<rparr>,
          \<lparr>sh_label = ''B'', sh_base64 = ''data:image/png;base64,img3'',
            sh_instruction = ''Render B''\<rparr>,
          \<lparr>sh_label = ''C'', sh_base64 = ''data:image/png;base64,img4'',
            sh_instruction = ''Render C''\<rparr>] \<and>
   s_label ([ex_shot ''A'', ex_shot ''A'', ex_shot ''B'', ex_shot ''C''] ! 0) \<in>
     set (map sh_label (projr (fst (generateStoryboardShots DEFAULT_CONFIG ex_parseDuplicates
       ''base'' ''script'' None Video ''16:9''
       (ex_provider (Inr \<lparr>r_text = Some ''shots''\<rparr>) [1])))))"
proof -
  let ?w = "ex_provider (Inr \<lparr>r_text = Some ''shots''\<rparr>) [1]"
  let ?w1 = "?w\<lparr>calls := [TextCall (parseRequest DEFAULT_CONFIG ''script'' Video)]\<rparr>"
  let ?shots = "[ex_shot ''A'', ex_shot ''A'', ex_shot ''B'', ex_shot ''C'']"
  let ?slot = "shotSlot DEFAULT_CONFIG ''base'' None ''16:9'' ?w1 ?shots"
  have pa: "phaseA DEFAULT_CONFIG ex_parseDuplicates ''script'' Video ?w = (?shots, ?w1)"
    by (simp add: phaseA_def tryParse_def generateContentText_def ex_provider_def
          ex_parseDuplicates_def)
  have digits: "toString (Suc (Suc 0)) = ''2'' \<and> toString (Suc (Suc (Suc 0))) = ''3'' \<and>
                toString (Suc (Suc (Suc (Suc 0)))) = ''4''"
    by (simp add: toString.simps)
  have s0: "?slot 0 = None"
    by (simp add: shotSlot_def editSceneImage_def generateContentImage_def ex_provider_def)
  have s1: "?slot 1 = Some \<lparr>sh_label = ''A'', sh_base64 = ''data:image/png;base64,img2'',
                              sh_instruction = ''Render A''\<rparr>"
    using digits
    by (simp add: shotSlot_def editSceneImage_def generateContentImage_def ex_provider_def
          responseParts_def ex_shot_def)
  have s2: "?slot 2 = Some \<lparr>sh_label = ''B'', sh_base64 = ''data:image/png;base64,img3'',
                              sh_instruction = ''Render B''\<rparr>"
    using digits
    by (simp add: shotSlot_def editSceneImage_def generateContentImage_def ex_provider_def
          responseParts_def ex_shot_def)
  have s3: "?slot 3 = Some \<lparr>sh_label = ''C'', sh_base64 = ''data:image/png;base64,img4'',
                              sh_instruction = ''Render C''\<rparr>"
    using digits
    by (simp add: shotSlot_def editSceneImage_def generateContentImage_def ex_provider_def
          responseParts_def ex_shot_def)
  have "generateStoryboardShots DEFAULT_CONFIG ex_parseDuplicates ''base'' ''script'' None
          Video ''16:9'' ?w =
        phaseB DEFAULT_CONFIG ''base'' None ''16:9'' ?shots ?w1"
    by (simp only: generateStoryboardShots_def pa prod.case)
  then have slots: "fst (generateStoryboardShots DEFAULT_CONFIG ex_parseDuplicates ''base''
                           ''script'' None Video ''16:9'' ?w) =
        Inr (notNull (map (shotSlot DEFAULT_CONFIG ''base'' (primaryReference None) ''16:9'' ?w1
                             ?shots) [0..<length ?shots]))"
    by (simp only: phaseB_slots fst_conv)
  have reference: "primaryReference None = None"
    by (simp add: primaryReference_def nonEmptyImages_def)
  have indices: "[0..<length ?shots] = [0, 1, 2, 3]"
    by (simp add: upt_rec)
  have "fst (generateStoryboardShots DEFAULT_CONFIG ex_parseDuplicates ''base'' ''script'' None
               Video ''16:9'' ?w) =
          Inr (notNull [?slot 0, ?slot 1, ?slot 2, ?slot 3])"
    using slots by (simp only: reference indices list.map)
  then have run: "fst (generateStoryboardShots DEFAULT_CONFIG ex_parseDuplicates ''base''
                         ''script'' None Video ''16:9'' ?w) =
     Inr [\<lparr>sh_label = ''A'', sh_base64 = ''data:image/png;base64,img2'',
            sh_instruction = ''Render A''\<rparr>,
          \<lparr>sh_label = ''B'', sh_base64 = ''data:image/png;base64,img3'',
            sh_instruction = ''Render B''\<rparr>,
          \<lparr>sh_label = ''C'', sh_base64 = ''data:image/png;base64,img4'',
            sh_instruction = ''Render C''\<rparr>]"
    unfolding s0 s1 s2 s3 by (simp add: notNull_def)
  have label: "s_label (?shots ! 0) = ''A''" by (simp add: ex_shot_def)
  have filled: "?slot 1 \<noteq> None \<and> ?slot 2 \<noteq> None \<and> ?slot 3 \<noteq> None"
    unfolding s1 s2 s3 by simp
  show ?thesis
    unfolding pa fst_conv snd_conv run label sum.sel
    using s0 filled by simp
qed

text \<open>
  C2, amended. Whatever the edit calls do, \<^verbatim>\<open>generateStoryboardShots\<close> returns a list and
  does not throw. One edit call is made per descriptor, in descriptor order, none
  repeated. A shot whose call fails leaves an empty slot; the result is the filled slots
  in descriptor order, each with the label and instruction of its descriptor. With 4
  descriptors of which exactly shot \<open>k\<close> fails, the result has exactly 3 shots, those of
  the three other descriptors in order: the failed shot is not in it, and when the four
  labels are pairwise distinct its label is not among the result's labels.
\<close>

theorem storyboard_partial_failure:
  assumes "phaseA cfg parse script mode w = (shots, w1)"
    and "generateStoryboardShots cfg parse base script refs mode aspect w = (outcome, w2)"
  shows "\<exists>result.
           outcome = Inr result \<and>
           result = notNull (map (shotSlot cfg base (primaryReference refs) aspect w1 shots)
                              [0..<length shots]) \<and>
           calls w2 = calls w1 @ map (shotCall cfg base (primaryReference refs) aspect) shots \<and>
           map sh_label result =
             map (\<lambda>i. s_label (shots ! i))
               (filter (\<lambda>i. shotSlot cfg base (primaryReference refs) aspect w1 shots i \<noteq> None)
                  [0..<length shots]) \<and>
           map sh_instruction result =
             map (\<lambda>i. s_instruction (shots ! i))
               (filter (\<lambda>i. shotSlot cfg base (primaryReference refs) aspect w1 shots i \<noteq> None)
                  [0..<length shots]) \<and>
           (\<forall>k. length shots = 4 \<and> k < 4 \<and>
                shotSlot cfg base (primaryReference refs) aspect w1 shots k = None \<and>
                (\<forall>i<4. i \<noteq> k \<longrightarrow>
                   shotSlot cfg base (primaryReference refs) aspect w1 shots i \<noteq> None) \<longrightarrow>
                length result = 3 \<and>
                map sh_label result = map s_label (take k shots @ drop (Suc k) shots) \<and>
                map sh_instruction result = map s_instruction (take k shots @ drop (Suc k) shots) \<and>
                (distinct (map s_label shots) \<longrightarrow> s_label (shots ! k) \<notin> set (map sh_label result)))"
proof -
  let ?slot = "shotSlot cfg base (primaryReference refs) aspect w1 shots"
  let ?result = "notNull (map ?slot [0..<length shots])"
  have out: "outcome = Inr ?result"
    and log: "calls w2 = calls w1 @ map (shotCall cfg base (primaryReference refs) aspect) shots"
    using assms by (auto simp: generateStoryboardShots_def phaseB_slots)
  note labels = slots_labels [of cfg base "primaryReference refs" aspect w1 shots "[0..<length shots]"]
  have one_of_four:
    "length ?result = 3 \<and>
     map sh_label ?result = map s_label (take k shots @ drop (Suc k) shots) \<and>
     map sh_instruction ?result = map s_instruction (take k shots @ drop (Suc k) shots) \<and>
     (distinct (map s_label shots) \<longrightarrow> s_label (shots ! k) \<notin> set (map sh_label ?result))"
    if four: "length shots = 4" and k: "k < 4" and failed: "?slot k = None"
      and others: "\<forall>i<4. i \<noteq> k \<longrightarrow> ?slot i \<noteq> None" for k
  proof -
    have keep: "filter (\<lambda>i. ?slot i \<noteq> None) [0, 1, 2, 3] = filter (\<lambda>i. i \<noteq> k) [0, 1, 2, 3]"
      using failed others by (intro filter_cong) auto
    have l: "map sh_label ?result = map s_label (take k shots @ drop (Suc k) shots)"
      using labels four k
      by (simp only: four upt_four keep others_of_four [of shots k s_label])
    have i: "map sh_instruction ?result = map s_instruction (take k shots @ drop (Suc k) shots)"
      using labels four k
      by (simp only: four upt_four keep others_of_four [of shots k s_instruction])
    have "length (map sh_label ?result) = 3"
      unfolding l using four k by simp
    then have n: "length ?result = 3" by simp
    have d: "s_label (shots ! k) \<notin> set (map sh_label ?result)" if "distinct (map s_label shots)"
    proof -
      have "map s_label shots ! k \<notin> set (take k (map s_label shots) @ drop (Suc k) (map s_label shots))"
        using that four k by (intro distinct_others) simp_all
      then show ?thesis
        unfolding l using four k by (simp add: take_map drop_map)
    qed
    from n l i d show ?thesis by blast
  qed
  from out log labels one_of_four show ?thesis by blast
qed

theorem storyboard_partial_failure_witness:
  "\<exists>result.
     fst (generateStoryboardShots DEFAULT_CONFIG ex_parseShots ''base'' ''script'' None Video
            ''16:9'' (ex_provider (Inl (Error ''network'')) [2])) = Inr result \<and>
     length result = 3 \<and>
     map sh_label result = [visual @ '' 1'', visual @ '' 3'', visual @ '' 4''] \<and>
     visual @ '' 2'' \<notin> set (map sh_label result)"
proof -
  let ?w = "ex_provider (Inl (Error ''network'')) [2]"
  let ?w1 = "?w\<lparr>calls := [TextCall (parseRequest DEFAULT_CONFIG ''script'' Video)]\<rparr>"
  let ?slot = "shotSlot DEFAULT_CONFIG ''base'' (primaryReference None) ''16:9'' ?w1 defaultShots"
  let ?run = "generateStoryboardShots DEFAULT_CONFIG ex_parseShots ''base'' ''script'' None Video
                ''16:9'' ?w"
  have pa: "phaseA DEFAULT_CONFIG ex_parseShots ''script'' Video ?w = (defaultShots, ?w1)"
    by (simp add: phaseA_eval)
  have run: "?run = (fst ?run, snd ?run)" by simp
  have four: "length defaultShots = 4" by (rule defaultShots_length)
  have slot: "?slot 0 \<noteq> None \<and> ?slot 1 = None \<and> ?slot 2 \<noteq> None \<and> ?slot 3 \<noteq> None"
    by (simp add: shotSlot_def editSceneImage_def generateContentImage_def ex_provider_def
          responseParts_def defaultShots_def)
  have others: "\<forall>i<4. i \<noteq> 1 \<longrightarrow> ?slot i \<noteq> None"
  proof (intro allI impI)
    fix i :: nat
    assume "i < 4" and "i \<noteq> 1"
    then have "i = 0 \<or> i = 2 \<or> i = 3" by arith
    with slot show "?slot i \<noteq> None" by auto
  qed
  have labels: "distinct (map s_label defaultShots)"
    by (simp add: defaultShots_def)
  from storyboard_partial_failure [OF pa run]
  obtain result where r: "fst ?run = Inr result"
    and rest: "\<forall>k. length defaultShots = 4 \<and> k < 4 \<and> ?slot k = None \<and>
                (\<forall>i<4. i \<noteq> k \<longrightarrow> ?slot i \<noteq> None) \<longrightarrow>
                length result = 3 \<and>
                map sh_label result = map s_label (take k defaultShots @ drop (Suc k) defaultShots) \<and>
                map sh_instruction result =
                  map s_instruction (take k defaultShots @ drop (Suc k) defaultShots) \<and>
                (distinct (map s_label defaultShots) \<longrightarrow>
                   s_label (defaultShots ! k) \<notin> set (map sh_label result))"
    by blast
  have pre: "length defaultShots = 4 \<and> (1::nat) < 4 \<and> ?slot 1 = None \<and>
             (\<forall>i<4. i \<noteq> 1 \<longrightarrow> ?slot i \<noteq> None)"
    using four slot others by simp
  have k1: "length result = 3 \<and>
            map sh_label result = map s_label (take 1 defaultShots @ drop (Suc 1) defaultShots) \<and>
            s_label (defaultShots ! 1) \<notin> set (map sh_label result)"
    using rest pre labels by blast
  have "map s_label (take 1 defaultShots @ drop (Suc 1) defaultShots) =
          [visual @ '' 1'', visual @ '' 3'', visual @ '' 4'']"
    and "s_label (defaultShots ! 1) = visual @ '' 2''"
    by (simp_all add: defaultShots_def)
  with r k1 show ?thesis by auto
qed

section \<open>Video synthesis\<close>

lemma pollLoop_calls_snd:
  assumes "pollLoop w opn = Some y"
  shows "\<exists>polls. calls (snd y) = calls w @ map PollCall polls"
proof (induction rule: pollLoop.raw_induct [OF _ assms])
  case (1 loop w opn y)
  show ?case
  proof (cases "op_done opn")
    case True
    with "1.hyps" have "snd y = w" by auto
    then have "calls (snd y) = calls w @ map PollCall []" by simp
    then show ?thesis by blast
  next
    case False
    let ?w1 = "w\<lparr>calls := calls w @ [PollCall opn]\<rparr>"
    show ?thesis
    proof (cases "pollOperation w (length (calls w)) opn")
      case (Inl e)
      with False "1.hyps" have "snd y = ?w1"
        by (auto simp: getVideosOperation_def)
      then have "calls (snd y) = calls w @ map PollCall [opn]" by simp
      then show ?thesis by blast
    next
      case (Inr opn')
      with False "1.hyps" have "loop ?w1 opn' = Some y"
        by (simp add: getVideosOperation_def)
      from "1.IH" [OF this] obtain polls where "calls (snd y) = calls ?w1 @ map PollCall polls"
        by blast
      then have "calls (snd y) = calls w @ map PollCall (opn # polls)" by simp
      then show ?thesis by blast
    qed
  qed
qed

lemma pollLoop_calls:
  assumes "pollLoop w opn = Some (r, w')"
  shows "\<exists>polls. calls w' = calls w @ map PollCall polls"
  using pollLoop_calls_snd [OF assms] by simp

lemma generateStoryVideo_calls:
  assumes "generateStoryVideo script referenceImages w = Some (r, w')"
  shows "\<exists>polls. calls w' =
           calls w @ VideoCall (storyVideoRequest script referenceImages) # map PollCall polls"
proof -
  let ?req = "storyVideoRequest script referenceImages"
  let ?w1 = "w\<lparr>calls := calls w @ [VideoCall ?req]\<rparr>"
  show ?thesis
  proof (cases "videoGenerate w (length (calls w)) ?req")
    case (Inl e)
    with assms have "w' = ?w1"
      by (simp add: generateStoryVideo_def generateVideos_def)
    then have "calls w' = calls w @ VideoCall ?req # map PollCall []" by simp
    then show ?thesis by blast
  next
    case (Inr opn)
    with assms obtain r1 where "pollLoop ?w1 opn = Some (r1, w')"
      by (auto simp: generateStoryVideo_def generateVideos_def
            split: option.splits sum.splits if_splits)
    from pollLoop_calls [OF this] obtain polls where "calls w' = calls ?w1 @ map PollCall polls"
      by blast
    then have "calls w' = calls w @ VideoCall ?req # map PollCall polls" by simp
    then show ?thesis by blast
  qed
qed

lemma storyVideoRequest_payload:
  "q_referenceImages (storyVideoRequest script referenceImages) =
     (if referenceImages = [] then None
      else Some (map (\<lambda>img. \<lparr>imageBytes = stripDataUrl img, ref_mimeType = ''image/png'',
                              referenceType = ''ASSET''\<rparr>) (take 3 referenceImages)))"
  by (simp add: storyVideoRequest_def Let_def)

text \<open>
  C8. The request sent to the provider carries the first 3 reference images at most: no
  list when no image is given, otherwise the stripped payloads of the first
  \<open>min 3 n\<close> of the \<open>n\<close> images, in order; with 4 images, exactly 3. Whenever
  \<^verbatim>\<open>generateStoryVideo\<close> returns, the request it sent is this one, sent once, and every
  later call is a poll.
\<close>

theorem story_video_reference_limit:
  "(case q_referenceImages (storyVideoRequest script referenceImages) of
      None \<Rightarrow> referenceImages = []
    | Some sent \<Rightarrow>
        length sent \<le> 3 \<and>
        length sent = min 3 (length referenceImages) \<and>
        map imageBytes sent = map stripDataUrl (take 3 referenceImages)) \<and>
   (length referenceImages > 3 \<longrightarrow>
      (\<exists>sent. q_referenceImages (storyVideoRequest script referenceImages) = Some sent \<and>
         length sent = 3 \<and>
         map imageBytes sent = map stripDataUrl (take 3 referenceImages))) \<and>
   (\<forall>r w'. generateStoryVideo script referenceImages w = Some (r, w') \<longrightarrow>
      (\<exists>polls. calls w' =
         calls w @ VideoCall (storyVideoRequest script referenceImages) # map PollCall polls))"
proof -
  have "\<forall>r w'. generateStoryVideo script referenceImages w = Some (r, w') \<longrightarrow>
      (\<exists>polls. calls w' =
         calls w @ VideoCall (storyVideoRequest script referenceImages) # map PollCall polls)"
    using generateStoryVideo_calls by blast
  then show ?thesis
    by (auto simp: storyVideoRequest_payload comp_def)
qed

lemma ex_video_run:
  "generateStoryVideo ''Buy it'' [''a'', ''data:image/png;base64,b'', ''c'', ''d'']
     (ex_provider (Inl (Error ''unused'')) []) =
   Some (Inr ''https://video/1'',
     (ex_provider (Inl (Error ''unused'')) [])
       \<lparr>calls := [VideoCall (storyVideoRequest ''Buy it''
                    [''a'', ''data:image/png;base64,b'', ''c'', ''d'']),
                  PollCall \<lparr>op_done = False, op_videoUri = None\<rparr>]\<rparr>)"
proof -
  let ?w = "ex_provider (Inl (Error ''unused'')) []"
  let ?req = "storyVideoRequest ''Buy it'' [''a'', ''data:image/png;base64,b'', ''c'', ''d'']"
  let ?w1 = "?w\<lparr>calls := [VideoCall ?req]\<rparr>"
  let ?pending = "\<lparr>op_done = False, op_videoUri = None\<rparr>"
  let ?finished = "\<lparr>op_done = True, op_videoUri = Some ''https://video/1''\<rparr>"
  let ?w2 = "?w\<lparr>calls := [VideoCall ?req, PollCall ?pending]\<rparr>"
  have submit: "generateVideos ?req ?w = (Inr ?pending, ?w1)"
    by (simp add: generateVideos_def ex_provider_def)
  have poll: "getVideosOperation ?pending ?w1 = (Inr ?finished, ?w2)"
    by (simp add: getVideosOperation_def ex_provider_def)
  have finished: "pollLoop ?w2 ?finished = Some (Inr ?finished, ?w2)"
    by (subst pollLoop.simps) simp
  have "pollLoop ?w1 ?pending = Some (Inr ?finished, ?w2)"
    by (subst pollLoop.simps) (simp add: poll finished)
  then show ?thesis
    by (simp add: generateStoryVideo_def submit)
qed

theorem story_video_reference_limit_witness:
  "length [''a'', ''data:image/png;base64,b'', ''c'', ''d''] > (3::nat) \<and>
   map_option fst (generateStoryVideo ''Buy it'' [''a'', ''data:image/png;base64,b'', ''c'', ''d'']
      (ex_provider (Inl (Error ''unused'')) [])) = Some (Inr ''https://video/1'') \<and>
   (\<exists>sent. q_referenceImages (storyVideoRequest ''Buy it''
        [''a'', ''data:image/png;base64,b'', ''c'', ''d'']) = Some sent \<and>
      length sent = 3 \<and> map imageBytes sent = [''a'', ''b'', ''c'']) \<and>
   (\<exists>polls. calls (snd (the (generateStoryVideo ''Buy it''
        [''a'', ''data:image/png;base64,b'', ''c'', ''d'']
        (ex_provider (Inl (Error ''unused'')) [])))) =
      VideoCall (storyVideoRequest ''Buy it''
        [''a'', ''data:image/png;base64,b'', ''c'', ''d'']) # map PollCall polls)"
proof -
  let ?refs = "[''a'', ''data:image/png;base64,b'', ''c'', ''d'']"
  let ?w = "ex_provider (Inl (Error ''unused'')) []"
  note limit = story_video_reference_limit
    [where script = "''Buy it''" and referenceImages = ?refs and w = ?w]
  have four: "length ?refs > (3::nat)" by simp
  with limit obtain sent where
    p: "q_referenceImages (storyVideoRequest ''Buy it'' ?refs) = Some sent"
      "length sent = 3" "map imageBytes sent = map stripDataUrl (take 3 ?refs)"
    by blast
  have "map stripDataUrl (take 3 ?refs) = [''a'', ''b'', ''c'']"
    by (simp add: stripDataUrl_def)
  with p have first: "\<exists>sent. q_referenceImages (storyVideoRequest ''Buy it'' ?refs) = Some sent \<and>
      length sent = 3 \<and> map imageBytes sent = [''a'', ''b'', ''c'']"
    by simp
  from limit have "\<forall>r w'. generateStoryVideo ''Buy it'' ?refs ?w = Some (r, w') \<longrightarrow>
      (\<exists>polls. calls w' =
         calls ?w @ VideoCall (storyVideoRequest ''Buy it'' ?refs) # map PollCall polls)"
    by blast
  from this [rule_format, OF ex_video_run] obtain polls where
    "calls (snd (the (generateStoryVideo ''Buy it'' ?refs ?w))) =
       calls ?w @ VideoCall (storyVideoRequest ''Buy it'' ?refs) # map PollCall polls"
    by (auto simp: ex_video_run)
  then have "\<exists>polls. calls (snd (the (generateStoryVideo ''Buy it'' ?refs ?w))) =
       VideoCall (storyVideoRequest ''Buy it'' ?refs) # map PollCall polls"
    by (auto simp: ex_provider_def)
  moreover have "map_option fst (generateStoryVideo ''Buy it'' ?refs ?w) =
                   Some (Inr ''https://video/1'')"
    by (simp add: ex_video_run)
  ultimately show ?thesis using four first by blast
qed

section \<open>Empty results\<close>













end
